theory Spec2Isabelle
  imports
    Complex_Main
    "HOL-Library.Multiset"
    "HOL-Library.Sublist"
    "HOL-Library.Char_ord"
    "HOL-Library.Option_ord"
    "HOL-Library.Log_Nat"
    "HOL-Library.List_Lexorder"
    "HOL-Library.Product_Lexorder"
begin

section \<open>The operator API (api\_server.py) over an explicit store\<close>

text \<open>
  The handlers of \<^verbatim>\<open>parte4/backend/api_server.py\<close> are embedded as functions of the
  request, the two tables of the store, the statistics cache and the clock. Every
  handler returns the list of SQL statements it hands to the connection next to its
  answer, so that "this query is never issued" is a statement about that list. An
  exception that leaves a handler is the \<open>Inl\<close> side of its result.

  Text is \<^typ>\<open>string\<close>; one \<^typ>\<open>char\<close> stands for one code point below 256. Amounts
  (the \<^verbatim>\<open>REAL\<close> column \<^verbatim>\<open>valor\<close>) are a type parameter of the statistics handler,
  which takes the aggregates of the store and the rounding of Python as the record
  \<open>real_ops\<close>. The ranking is proved for every such record; the totals are proved for
  \<open>double_ops\<close>, the arithmetic of IEEE doubles.
\<close>

subsection \<open>Python and SQLite primitives\<close>

datatype py_error = ValueError | OverflowError | OperationalError | ZeroDivisionError

text \<open>\<^verbatim>\<open>str.strip()\<close> removes the characters for which \<^verbatim>\<open>str.isspace\<close> holds.\<close>

definition py_isspace :: "char \<Rightarrow> bool" where
  "py_isspace c =
     (let n = (of_char c :: nat)
      in (9 \<le> n \<and> n \<le> 13) \<or> (28 \<le> n \<and> n \<le> 32) \<or> n = 133 \<or> n = 160)"

definition py_strip :: "string \<Rightarrow> string" where
  "py_strip s = rev (dropWhile py_isspace (rev (dropWhile py_isspace s)))"

text \<open>
  \<^verbatim>\<open>int(s)\<close> on a string: surrounding blanks are skipped (the separators 28 to 31 are
  not blanks here), then an optional sign, then decimal digits, where one underscore may
  stand between two digits. More than 4300 digits are refused. Anything else is
  \<^verbatim>\<open>ValueError\<close>, the \<open>None\<close> of \<open>py_int\<close>.
\<close>

definition int_isspace :: "char \<Rightarrow> bool" where
  "int_isspace c =
     (let n = (of_char c :: nat)
      in (9 \<le> n \<and> n \<le> 13) \<or> n = 32 \<or> n = 133 \<or> n = 160)"

definition is_digit :: "char \<Rightarrow> bool" where
  "is_digit c = (let n = (of_char c :: nat) in 48 \<le> n \<and> n \<le> 57)"

definition digit_val :: "char \<Rightarrow> int" where
  "digit_val c = of_char c - 48"

fun parse_digits :: "int \<Rightarrow> bool \<Rightarrow> string \<Rightarrow> int option" where
  "parse_digits acc prev [] = (if prev then Some acc else None)"
| "parse_digits acc prev (c # cs) =
     (if is_digit c then parse_digits (10 * acc + digit_val c) True cs
      else if c = CHR ''_'' \<and> prev then parse_digits acc False cs
      else None)"

definition py_int :: "string \<Rightarrow> int option" where
  "py_int s =
     (let t = rev (dropWhile int_isspace (rev (dropWhile int_isspace s)));
          neg = (t \<noteq> [] \<and> hd t = CHR ''-'');
          ds = (if t \<noteq> [] \<and> (hd t = CHR ''-'' \<or> hd t = CHR ''+'') then tl t else t)
      in if 4300 < length (filter is_digit ds) then None
         else map_option (\<lambda>n. if neg then - n else n) (parse_digits 0 False ds))"

text \<open>
  The \<^verbatim>\<open>sqlite3\<close> module binds a Python \<^verbatim>\<open>int\<close> as a 64-bit \<^verbatim>\<open>INTEGER\<close> and raises
  \<^verbatim>\<open>OverflowError\<close> when it does not fit.
\<close>

definition in_int64 :: "int \<Rightarrow> bool" where
  "in_int64 n = (- (2 ^ 63) \<le> n \<and> n < 2 ^ 63)"

text \<open>
  \<^verbatim>\<open>LIKE\<close> without \<^verbatim>\<open>ESCAPE\<close>: \<^verbatim>\<open>%\<close> stands for any run of characters, \<^verbatim>\<open>_\<close> for
  any one character, and every other character for itself, where the 26 ASCII letters
  match in either case. The first argument is the pattern. The store reads the pattern
  and the text as C strings: both end at their first U+0000.
\<close>

definition sqlite_lower :: "char \<Rightarrow> char" where
  "sqlite_lower c =
     (let n = (of_char c :: nat) in if 65 \<le> n \<and> n \<le> 90 then char_of (n + 32) else c)"

fun pattern_compare :: "string \<Rightarrow> string \<Rightarrow> bool" where
  "pattern_compare [] [] = True"
| "pattern_compare [] (c # s) = False"
| "pattern_compare (p # ps) [] = (p = CHR ''%'' \<and> pattern_compare ps [])"
| "pattern_compare (p # ps) (c # s) =
     (if p = CHR ''%'' then pattern_compare ps (c # s) \<or> pattern_compare (p # ps) s
      else (p = CHR ''_'' \<or> sqlite_lower p = sqlite_lower c) \<and> pattern_compare ps s)"

definition c_string :: "string \<Rightarrow> string" where
  "c_string s = takeWhile (\<lambda>c. c \<noteq> CHR 0x00) s"

definition like_match :: "string \<Rightarrow> string \<Rightarrow> bool" where
  "like_match pat s = pattern_compare (c_string pat) (c_string s)"

text \<open>
  A pattern of more than 50000 bytes (in UTF-8, where a code point from 128 on takes two
  bytes, and counted beyond a U+0000) makes the evaluation of \<^verbatim>\<open>LIKE\<close> fail with
  \<^verbatim>\<open>OperationalError\<close>.
\<close>

definition utf8_length :: "string \<Rightarrow> nat" where
  "utf8_length s = length s + length (filter (\<lambda>c. 128 \<le> (of_char c :: nat)) s)"

definition like_too_complex :: "string \<Rightarrow> bool" where
  "like_too_complex pat = (50000 < utf8_length pat)"

text \<open>
  \<^verbatim>\<open>LIMIT ? OFFSET ?\<close>: a negative offset counts as 0 and a negative limit as no limit.
\<close>

definition sql_limit_offset :: "int \<Rightarrow> int \<Rightarrow> 'a list \<Rightarrow> 'a list" where
  "sql_limit_offset n off rows =
     (let rest = drop (nat off) rows in if n < 0 then rest else take (nat n) rest)"

subsection \<open>The store\<close>

text \<open>
  The two tables of \<^verbatim>\<open>init_db\<close>, each a list of rows in storage order. The surrogate
  key \<^verbatim>\<open>despesas.id\<close> is never selected and is left out.
\<close>

record operadora =
  cnpj :: string
  razao_social :: string
  registro_ans :: "string option"
  modalidade :: "string option"
  uf :: "string option"

record 'v despesa =
  despesa_cnpj :: string
  trimestre :: int
  ano :: int
  valor :: 'v

record 'v database =
  operadoras :: "operadora list"
  despesas :: "'v despesa list"

text \<open>The statements the handlers execute, with their bound parameters.\<close>

datatype sql_stmt =
    SelectOperadorasPage "string option" int int
  | CountOperadoras "string option"
  | SelectOperadora string
  | SelectRazaoSocial string
  | SelectDespesas string
  | SumDespesas
  | AvgDespesas
  | TopOperadoras
  | DistribuicaoUf

text \<open>
  \<^verbatim>\<open>WHERE razao_social LIKE ? OR cnpj LIKE ?\<close>, both parameters bound to the same
  pattern (\<open>Some pat\<close>), or no \<^verbatim>\<open>WHERE\<close> clause at all (\<open>None\<close>). The pattern is
  looked at only when a row is visited.
\<close>

definition where_rows :: "string option \<Rightarrow> operadora list \<Rightarrow> py_error + operadora list" where
  "where_rows w rows =
     (case w of
        None \<Rightarrow> Inr rows
      | Some pat \<Rightarrow>
          if rows \<noteq> [] \<and> like_too_complex pat then Inl OperationalError
          else Inr (filter (\<lambda>r. like_match pat (razao_social r) \<or> like_match pat (cnpj r)) rows))"

text \<open>
  \<^verbatim>\<open>SELECT cnpj, razao_social, registro_ans, modalidade, uf FROM operadoras {where}
  ORDER BY razao_social LIMIT ? OFFSET ?\<close>. With \<^verbatim>\<open>LIMIT 0\<close> no row is visited.
  Rows of equal legal name stay in storage order.
\<close>

definition select_operadoras ::
  "'v database \<Rightarrow> string option \<Rightarrow> int \<Rightarrow> int \<Rightarrow> py_error + operadora list" where
  "select_operadoras db w n off =
     (if \<not> in_int64 n \<or> \<not> in_int64 off then Inl OverflowError
      else if n = 0 then Inr []
      else (case where_rows w (operadoras db) of
              Inl e \<Rightarrow> Inl e
            | Inr rows \<Rightarrow> Inr (sql_limit_offset n off (sort_key razao_social rows))))"

text \<open>\<^verbatim>\<open>SELECT COUNT(*) as total FROM operadoras {where}\<close>\<close>

definition count_operadoras :: "'v database \<Rightarrow> string option \<Rightarrow> py_error + int" where
  "count_operadoras db w =
     (case where_rows w (operadoras db) of
        Inl e \<Rightarrow> Inl e
      | Inr rows \<Rightarrow> Inr (int (length rows)))"

subsection \<open>GET /api/operadoras\<close>

text \<open>
  \<open>raising tr r k\<close>: when the step \<open>r\<close> raised, the handler ends with that exception
  after the statements \<open>tr\<close>; otherwise it goes on with the value of the step.
\<close>

definition raising ::
  "sql_stmt list \<Rightarrow> py_error + 'a \<Rightarrow> ('a \<Rightarrow> sql_stmt list \<times> (py_error + 'b))
     \<Rightarrow> sql_stmt list \<times> (py_error + 'b)" where
  "raising tr r k = (case r of Inl e \<Rightarrow> (tr, Inl e) | Inr x \<Rightarrow> k x)"

text \<open>\<^verbatim>\<open>int(request.args.get(key, default))\<close>; the first value of a repeated key counts.\<close>

definition int_arg :: "(string \<times> string) list \<Rightarrow> string \<Rightarrow> int \<Rightarrow> py_error + int" where
  "int_arg args k dflt =
     (case map_of args k of
        None \<Rightarrow> Inr dflt
      | Some s \<Rightarrow> (case py_int s of None \<Rightarrow> Inl ValueError | Some n \<Rightarrow> Inr n))"

definition str_arg :: "(string \<times> string) list \<Rightarrow> string \<Rightarrow> string \<Rightarrow> string" where
  "str_arg args k dflt = (case map_of args k of None \<Rightarrow> dflt | Some s \<Rightarrow> s)"

record envelope =
  data :: "operadora list"
  page :: int
  limit :: int
  total :: int
  total_pages :: int

definition listar_operadoras ::
  "'v database \<Rightarrow> (string \<times> string) list \<Rightarrow> sql_stmt list \<times> (py_error + envelope)" where
  "listar_operadoras db args =
     raising [] (int_arg args ''page'' 1) (\<lambda>page.
     raising [] (int_arg args ''limit'' 10) (\<lambda>requested.
       let limit = min requested 100;
           offset = (page - 1) * limit;
           busca = py_strip (str_arg args ''busca'' '''');
           where_clause = (if busca \<noteq> [] then Some (''%'' @ busca @ ''%'') else None);
           query = SelectOperadorasPage where_clause limit offset;
           count_query = CountOperadoras where_clause
       in raising [query] (select_operadoras db where_clause limit offset) (\<lambda>operadoras.
          raising [query, count_query] (count_operadoras db where_clause) (\<lambda>total.
            if limit = 0 then ([query, count_query], Inl ZeroDivisionError)
            else ([query, count_query],
                  Inr \<lparr>data = operadoras, page = page, limit = limit, total = total,
                       total_pages = (total + limit - 1) div limit\<rparr>)))))"

subsection \<open>Responses\<close>

text \<open>
  What \<^verbatim>\<open>jsonify\<close> is given, one constructor for each shape of body. The body of
  the listing is its envelope. A row of the history is \<open>(trimestre, ano, valor)\<close>, a
  row of the ranking is \<open>(cnpj, razao_social, total_despesas)\<close> and a row of the
  distribution is \<open>(uf, num_operadoras, total_despesas)\<close>. A response is a body with its
  status code.
\<close>

record 'v resumo =
  total_despesas :: 'v
  media_despesas :: 'v
  num_operadoras :: nat

record 'v resultado =
  resumo :: "'v resumo"
  top_operadoras :: "(string \<times> string \<times> 'v) list"
  distribuicao_uf :: "(string option \<times> nat \<times> 'v) list"

datatype 'v json_body =
    Erro string
  | Lista envelope
  | Operadora operadora
  | Historico string string "(int \<times> int \<times> 'v) list"
  | Estatisticas "'v resultado"

type_synonym 'v response = "'v json_body \<times> nat"

definition nao_encontrada :: string where
  "nao_encontrada = ''Operadora n'' @ [char_of (227 :: nat)] @ ''o encontrada''"

text \<open>
  \<^verbatim>\<open>@app.errorhandler(500)\<close>: what the caller of a handler that raised is sent. (Under
  \<^verbatim>\<open>app.run(debug=True)\<close> the exception goes to the debugger of the development server
  instead, which also answers with status 500.)
\<close>

definition internal_error :: "'v response" where
  "internal_error = (Erro ''Erro interno do servidor'', 500)"

definition handle_exception :: "py_error + 'a \<Rightarrow> ('a \<Rightarrow> 'v response) \<Rightarrow> 'v response" where
  "handle_exception r ok = (case r of Inl e \<Rightarrow> internal_error | Inr x \<Rightarrow> ok x)"

text \<open>The route of the listing: the envelope with status 200, or the error response.\<close>

definition api_operadoras :: "'v database \<Rightarrow> (string \<times> string) list \<Rightarrow> 'v response" where
  "api_operadoras db args =
     handle_exception (snd (listar_operadoras db args)) (\<lambda>env. (Lista env, 200))"

subsection \<open>GET /api/operadoras/<cnpj> and GET /api/operadoras/<cnpj>/despesas\<close>

text \<open>\<^verbatim>\<open>SELECT ... FROM operadoras WHERE cnpj = ?\<close> with \<^verbatim>\<open>fetchone()\<close>\<close>

definition fetch_operadora :: "'v database \<Rightarrow> string \<Rightarrow> operadora option" where
  "fetch_operadora db c = find (\<lambda>r. cnpj r = c) (operadoras db)"

definition detalhes_operadora :: "'v database \<Rightarrow> string \<Rightarrow> sql_stmt list \<times> 'v response" where
  "detalhes_operadora db c =
     (case fetch_operadora db c of
        None \<Rightarrow> ([SelectOperadora c], (Erro nao_encontrada, 404))
      | Some operadora \<Rightarrow> ([SelectOperadora c], (Operadora operadora, 200)))"

text \<open>
  \<^verbatim>\<open>SELECT trimestre, ano, valor FROM despesas WHERE cnpj = ?
  ORDER BY ano DESC, trimestre DESC\<close>. The descending order is the ascending order of
  the negated pair.
\<close>

definition select_despesas :: "'v database \<Rightarrow> string \<Rightarrow> (int \<times> int \<times> 'v) list" where
  "select_despesas db c =
     map (\<lambda>d. (trimestre d, ano d, valor d))
       (sort_key (\<lambda>d. (- ano d, - trimestre d))
          (filter (\<lambda>d. despesa_cnpj d = c) (despesas db)))"

definition historico_despesas :: "'v database \<Rightarrow> string \<Rightarrow> sql_stmt list \<times> 'v response" where
  "historico_despesas db c =
     (case fetch_operadora db c of
        None \<Rightarrow> ([SelectRazaoSocial c], (Erro nao_encontrada, 404))
      | Some operadora \<Rightarrow>
          ([SelectRazaoSocial c, SelectDespesas c],
           (Historico c (razao_social operadora) (select_despesas db c), 200)))"

subsection \<open>GET /api/estatisticas\<close>

text \<open>
  The floating-point operations the handler relies on: the aggregates \<^verbatim>\<open>SUM\<close> and
  \<^verbatim>\<open>AVG\<close> of the store over a non-empty list of amounts, and \<^verbatim>\<open>round(x, 2)\<close>.
\<close>

record 'v real_ops =
  sql_sum :: "'v list \<Rightarrow> 'v"
  sql_avg :: "'v list \<Rightarrow> 'v"
  py_round2 :: "'v \<Rightarrow> 'v"

text \<open>
  \<^verbatim>\<open>round(x or 0, 2)\<close> for the value \<open>x\<close> of an aggregate, which is \<^verbatim>\<open>None\<close> over no
  rows: \<^verbatim>\<open>None\<close> and a zero both give the integer 0.
\<close>

definition round_or_0 :: "'v::zero real_ops \<Rightarrow> 'v option \<Rightarrow> 'v" where
  "round_or_0 ops x =
     (case x of None \<Rightarrow> 0 | Some v \<Rightarrow> if v = 0 then 0 else py_round2 ops v)"

definition aggregate :: "('v list \<Rightarrow> 'v) \<Rightarrow> 'v list \<Rightarrow> 'v option" where
  "aggregate f vs = (if vs = [] then None else Some (f vs))"

text \<open>
  \<^verbatim>\<open>FROM operadoras o INNER JOIN despesas d ON o.cnpj = d.cnpj\<close>: the store scans the
  expense records in storage order and looks the operator of each one up.
\<close>

definition joined :: "'v database \<Rightarrow> (operadora \<times> 'v despesa) list" where
  "joined db =
     concat (map (\<lambda>d. map (\<lambda>r. (r, d)) (filter (\<lambda>r. cnpj r = despesa_cnpj d) (operadoras db)))
               (despesas db))"

text \<open>
  \<^verbatim>\<open>ORDER BY ... DESC\<close> of the store keeps rows of equal keys in the order in which
  they arrive.
\<close>

definition order_by_desc :: "('a \<Rightarrow> 'k::linorder) \<Rightarrow> 'a list \<Rightarrow> 'a list" where
  "order_by_desc f rows = rev (sort_key f (rev rows))"

text \<open>
  \<^verbatim>\<open>SELECT o.cnpj, o.razao_social, SUM(d.valor) as total_despesas ...
  GROUP BY o.cnpj, o.razao_social\<close>: one row for each pair that occurs in the join, in
  ascending order of the pairs; the amounts of a group are summed in the order of the
  join.
\<close>

definition grupos_operadora :: "'v real_ops \<Rightarrow> 'v database \<Rightarrow> (string \<times> string \<times> 'v) list" where
  "grupos_operadora ops db =
     map (\<lambda>k. (fst k, snd k,
                sql_sum ops (map (\<lambda>(r, d). valor d)
                  (filter (\<lambda>(r, d). (cnpj r, razao_social r) = k) (joined db)))))
       (sort (remdups (map (\<lambda>(r, d). (cnpj r, razao_social r)) (joined db))))"

text \<open>\<^verbatim>\<open>ORDER BY total_despesas DESC LIMIT 5\<close>\<close>

definition select_top_operadoras ::
  "'v::linorder real_ops \<Rightarrow> 'v database \<Rightarrow> (string \<times> string \<times> 'v) list" where
  "select_top_operadoras ops db =
     take 5 (order_by_desc (\<lambda>g. snd (snd g)) (grupos_operadora ops db))"

text \<open>
  \<^verbatim>\<open>SELECT o.uf, COUNT(DISTINCT o.cnpj) as num_operadoras, SUM(d.valor) as
  total_despesas ... GROUP BY o.uf ORDER BY total_despesas DESC\<close>. With one grouping
  term and one descending ordering term, the store forms the groups in descending
  order of the region (no region last) before it orders them by their totals.
\<close>

definition select_distribuicao_uf ::
  "'v::linorder real_ops \<Rightarrow> 'v database \<Rightarrow> (string option \<times> nat \<times> 'v) list" where
  "select_distribuicao_uf ops db =
     order_by_desc (\<lambda>g. snd (snd g))
       (map (\<lambda>k. (k,
                   length (remdups (map (\<lambda>(r, d). cnpj r)
                     (filter (\<lambda>(r, d). uf r = k) (joined db)))),
                   sql_sum ops (map (\<lambda>(r, d). valor d)
                     (filter (\<lambda>(r, d). uf r = k) (joined db)))))
          (rev (sort (remdups (map (\<lambda>(r, d). uf r) (joined db))))))"

text \<open>The recomputation: the four queries and the dictionary built from them.\<close>

definition calcula_estatisticas ::
  "'v::{zero,linorder} real_ops \<Rightarrow> 'v database \<Rightarrow> 'v resultado" where
  "calcula_estatisticas ops db =
     (let total_despesas = aggregate (sql_sum ops) (map valor (despesas db));
          media_despesas = aggregate (sql_avg ops) (map valor (despesas db));
          top_operadoras = select_top_operadoras ops db;
          distribuicao_uf = select_distribuicao_uf ops db
      in \<lparr>resumo = \<lparr>total_despesas = round_or_0 ops total_despesas,
                      media_despesas = round_or_0 ops media_despesas,
                      num_operadoras = length top_operadoras\<rparr>,
          top_operadoras = top_operadoras,
          distribuicao_uf = distribuicao_uf\<rparr>)"

text \<open>
  The cache \<^verbatim>\<open>cache_estatisticas\<close>. A \<^verbatim>\<open>datetime\<close> is a number of microseconds;
  \<open>total_seconds() < timeout\<close> is decided on the microseconds, which is exact for the
  timeout of 300 seconds.
\<close>

record 'v cache =
  dados :: "'v resultado option"
  timestamp :: "int option"
  timeout :: int

definition cache_estatisticas :: "'v cache" where
  "cache_estatisticas = \<lparr>dados = None, timestamp = None, timeout = 300\<rparr>"

definition cache_valido :: "'v cache \<Rightarrow> int \<Rightarrow> 'v resultado option" where
  "cache_valido cache agora =
     (case dados cache of
        None \<Rightarrow> None
      | Some d \<Rightarrow>
          (case timestamp cache of
             None \<Rightarrow> None
           | Some t \<Rightarrow> if agora - t < timeout cache * 1000000 then Some d else None))"

definition estatisticas ::
  "'v::{zero,linorder} real_ops \<Rightarrow> 'v database \<Rightarrow> 'v cache \<Rightarrow> int
     \<Rightarrow> sql_stmt list \<times> 'v response \<times> 'v cache" where
  "estatisticas ops db cache agora =
     (case cache_valido cache agora of
        Some d \<Rightarrow> ([], (Estatisticas d, 200), cache)
      | None \<Rightarrow>
          (let resultado = calcula_estatisticas ops db
           in ([SumDespesas, AvgDespesas, TopOperadoras, DistribuicaoUf],
               (Estatisticas resultado, 200),
               cache\<lparr>dados := Some resultado, timestamp := Some agora\<rparr>)))"

subsection \<open>The arithmetic of doubles\<close>

text \<open>
  A finite double is the integer that counts its multiples of \<open>2 ^ - 1074\<close>, the least
  positive double: every finite double is such a multiple, 0 is the double 0, and the
  order of the doubles is the order of these integers. So \<open>unidade\<close> is the double 1,
  and the largest finite double is \<open>(2 ^ 53 - 1) * 2 ^ 2045\<close>. Results beyond the
  largest finite double (infinities, and what is not a number) are not represented.
\<close>

type_synonym double = int

definition unidade :: double where
  "unidade = 2 ^ 1074"

text \<open>
  \<open>rhe p q\<close> is the integer nearest to the fraction \<open>p / q\<close> (for \<open>0 < q\<close>), a half
  going to the even neighbour. \<open>rndq p q\<close> is that fraction rounded to 53 significant
  bits the same way: the result of a floating-point operation whose exact value is
  \<open>p / q\<close>. \<open>rnd\<close> rounds an integer.
\<close>

definition rhe :: "int \<Rightarrow> int \<Rightarrow> int" where
  "rhe p q =
     (let m = p div q; r = p mod q
      in if q < 2 * r \<or> (2 * r = q \<and> odd m) then m + 1 else m)"

definition rndq :: "int \<Rightarrow> int \<Rightarrow> double" where
  "rndq p q =
     (let a = \<bar>p\<bar>; k = bitlen (a div q) - 53;
          m = (if k \<le> 0 then rhe a q else rhe a (q * 2 ^ nat k) * 2 ^ nat k)
      in if p < 0 then - m else m)"

definition rnd :: "int \<Rightarrow> double" where
  "rnd n = rndq n 1"

text \<open>
  \<open>inteiro n\<close> is the double of the whole number \<open>n\<close>, and \<open>decimal a j\<close> the double
  that the decimal literal \<open>a / 10 ^ j\<close> denotes.
\<close>

definition inteiro :: "int \<Rightarrow> double" where
  "inteiro n = n * unidade"

definition decimal :: "int \<Rightarrow> nat \<Rightarrow> double" where
  "decimal a j = rndq (a * unidade) (10 ^ j)"




text \<open>
  \<^verbatim>\<open>round(x, 2)\<close> on a float: the exact value of \<open>x\<close> is rounded to two decimals, a
  half going to the even neighbour, and the double nearest to that decimal is returned.
\<close>

definition double_round2 :: "double \<Rightarrow> double" where
  "double_round2 x = rndq (rhe (100 * x) unidade * unidade) 100"


subsection \<open>Vocabulary of the properties\<close>

text \<open>
  The \<^verbatim>\<open>WHERE\<close> clause that the listing builds for a trimmed search text
  (\<^verbatim>\<open>where_clause\<close> and \<^verbatim>\<open>params\<close> of the handler).
\<close>

definition where_de :: "string \<Rightarrow> string option" where
  "where_de busca = (if busca \<noteq> [] then Some (''%'' @ busca @ ''%'') else None)"

text \<open>
  \<open>corresponde busca r\<close>: the row matches the pattern \<^verbatim>\<open>%busca%\<close> in its legal name or
  in its tax identifier. \<open>filtradas db busca\<close> are the rows of the store that do, in
  storage order.
\<close>

definition corresponde :: "string \<Rightarrow> operadora \<Rightarrow> bool" where
  "corresponde busca r =
     (like_match (''%'' @ busca @ ''%'') (razao_social r) \<or>
      like_match (''%'' @ busca @ ''%'') (cnpj r))"

definition filtradas :: "'v database \<Rightarrow> string \<Rightarrow> operadora list" where
  "filtradas db busca = filter (corresponde busca) (operadoras db)"

text \<open>
  \<open>contem_busca busca r\<close>: the search text occurs, character for character, as a
  contiguous part of the legal name or of the tax identifier. This is the substring
  match of the specification, to be compared with \<open>corresponde\<close>.
\<close>

definition contem_busca :: "string \<Rightarrow> operadora \<Rightarrow> bool" where
  "contem_busca busca r = (sublist busca (razao_social r) \<or> sublist busca (cnpj r))"







subsection \<open>Example data\<close>

text \<open>
  A small store with whole amounts, on which the aggregates are exact: operator A with
  three expense records, operator B with none and operator C with one. The empty store
  is \<open>db_vazio\<close>.
\<close>

definition exemplo_ops :: "int real_ops" where
  "exemplo_ops =
     \<lparr>sql_sum = sum_list, sql_avg = (\<lambda>vs. sum_list vs div int (length vs)),
      py_round2 = (\<lambda>v. v)\<rparr>"

definition exemplo_operadora :: "string \<Rightarrow> string \<Rightarrow> string \<Rightarrow> operadora" where
  "exemplo_operadora c r u =
     \<lparr>cnpj = c, razao_social = r, registro_ans = None, modalidade = None, uf = Some u\<rparr>"

definition exemplo_despesa :: "string \<Rightarrow> int \<Rightarrow> int \<Rightarrow> int \<Rightarrow> int despesa" where
  "exemplo_despesa c q y v = \<lparr>despesa_cnpj = c, trimestre = q, ano = y, valor = v\<rparr>"

definition exemplo_db :: "int database" where
  "exemplo_db =
     \<lparr>operadoras =
        [exemplo_operadora ''A'' ''Alfa'' ''SP'', exemplo_operadora ''B'' ''Beta'' ''RJ'',
         exemplo_operadora ''C'' ''Gama'' ''SP''],
      despesas =
        [exemplo_despesa ''A'' 1 2024 100, exemplo_despesa ''C'' 3 2024 50,
         exemplo_despesa ''A'' 3 2024 200, exemplo_despesa ''A'' 2 2023 7]\<rparr>"

definition db_vazio :: "int database" where
  "db_vazio = \<lparr>operadoras = [], despesas = []\<rparr>"





section \<open>Properties\<close>

subsection \<open>Evaluating the primitives\<close>

lemma py_int_0: "py_int ''0'' = Some 0"
  by (simp add: py_int_def int_isspace_def is_digit_def digit_val_def)

lemma py_int_1: "py_int ''1'' = Some 1"
  by (simp add: py_int_def int_isspace_def is_digit_def digit_val_def)

lemma py_int_2: "py_int ''2'' = Some 2"
  by (simp add: py_int_def int_isspace_def is_digit_def digit_val_def)

lemma py_int_10: "py_int ''10'' = Some 10"
  by (simp add: py_int_def int_isspace_def is_digit_def digit_val_def)

lemma py_int_100: "py_int ''100'' = Some 100"
  by (simp add: py_int_def int_isspace_def is_digit_def digit_val_def)

lemma py_int_250: "py_int ''250'' = Some 250"
  by (simp add: py_int_def int_isspace_def is_digit_def digit_val_def)

lemma py_int_neg5: "py_int ''-5'' = Some (- 5)"
  by (simp add: py_int_def int_isspace_def is_digit_def digit_val_def)

lemma py_int_big: "py_int ''10000000000000000000'' = Some 10000000000000000000"
  by (simp add: py_int_def int_isspace_def is_digit_def digit_val_def)

lemma py_int_abc: "py_int ''abc'' = None"
  by (simp add: py_int_def int_isspace_def is_digit_def digit_val_def)

lemma py_int_dez: "py_int ''dez'' = None"
  by (simp add: py_int_def int_isspace_def is_digit_def digit_val_def)

text \<open>A literal of 4301 digits is refused, whatever its value.\<close>

lemma dropWhile_replicate_id: "\<not> P x \<Longrightarrow> dropWhile P (replicate n x) = replicate n x"
  by (cases n) simp_all

lemma py_int_4301: "py_int (replicate 4301 (CHR ''9'')) = None"
proof -
  have s: "\<not> int_isspace (CHR ''9'')" by (simp add: int_isspace_def)
  have d: "is_digit (CHR ''9'')" by (simp add: is_digit_def)
  have h: "hd (replicate 4301 (CHR ''9'')) = CHR ''9''" by (rule hd_replicate) simp
  have f: "filter is_digit (replicate 4301 (CHR ''9'')) = replicate 4301 (CHR ''9'')"
    using d by (simp add: filter_replicate)
  show ?thesis
    unfolding py_int_def Let_def dropWhile_replicate_id[where P = int_isspace, OF s] rev_replicate h
    by (simp add: f)
qed

lemma int_arg_Cons:
  "int_arg ((k', v) # args) k d =
     (if k' = k then (case py_int v of None \<Rightarrow> Inl ValueError | Some n \<Rightarrow> Inr n)
      else int_arg args k d)"
  by (simp add: int_arg_def)

lemma str_arg_Cons:
  "str_arg ((k', v) # args) k d = (if k' = k then v else str_arg args k d)"
  by (simp add: str_arg_def)

lemma int_arg_cases:
  "int_arg args k d = Inl ValueError \<or> (\<exists>n. int_arg args k d = Inr n)"
  by (auto simp: int_arg_def split: option.splits)

lemma no_busca: "map_of args ''busca'' = None \<Longrightarrow> py_strip (str_arg args ''busca'' '''') = []"
  by (simp add: str_arg_def py_strip_def)

lemma c_string_id: "CHR 0x00 \<notin> set s \<Longrightarrow> c_string s = s"
  by (auto simp: c_string_def takeWhile_eq_all_conv)

lemma c_string_Cons: "c_string (c # s) = (if c = CHR 0x00 then [] else c # c_string s)"
  by (simp add: c_string_def)

lemma c_string_append:
  "c_string (s @ t) = (if CHR 0x00 \<in> set s then c_string s else s @ c_string t)"
  by (induction s) (auto simp: c_string_def)

lemma pattern_percent [simp]: "pattern_compare ''%'' s"
  by (induction s) auto

lemma pattern_percent_percent [simp]: "pattern_compare ''%%'' s"
  by (induction s) auto

lemma like_percent [simp]: "like_match ''%'' s"
  by (simp add: like_match_def c_string_def)

lemma like_percent_percent [simp]: "like_match ''%%'' s"
  by (simp add: like_match_def c_string_def)

lemma corresponde_Nil [simp]: "corresponde [] r"
  by (simp add: corresponde_def)

lemma filtradas_Nil [simp]: "filtradas db [] = operadoras db"
  by (simp add: filtradas_def)

lemma short_pattern: "length b \<le> 20000 \<Longrightarrow> \<not> like_too_complex (''%'' @ b @ ''%'')"
proof -
  assume a: "length b \<le> 20000"
  have "length (filter (\<lambda>c. 128 \<le> (of_char c :: nat)) b) \<le> length b"
    by (rule length_filter_le)
  with a show ?thesis
    by (simp add: like_too_complex_def utf8_length_def del: length_filter_le)
qed

lemma empty_pattern: "\<not> like_too_complex (''%'' @ [] @ ''%'')"
  by (rule short_pattern) simp

text \<open>
  Without a wildcard in it, a pattern matches exactly the texts that are equal to it,
  and between two \<^verbatim>\<open>%\<close> exactly the texts that contain it, the ASCII letters compared
  without regard to case.
\<close>

lemma pattern_literal:
  assumes "CHR ''%'' \<notin> set b" and "CHR ''_'' \<notin> set b"
  shows "pattern_compare b s \<longleftrightarrow> map sqlite_lower b = map sqlite_lower s"
  using assms
proof (induction b arbitrary: s)
  case Nil
  then show ?case by (cases s) auto
next
  case (Cons p ps)
  then show ?case by (cases s) auto
qed

lemma pattern_prefix:
  assumes "CHR ''%'' \<notin> set b" and "CHR ''_'' \<notin> set b"
  shows "pattern_compare (b @ ''%'') s \<longleftrightarrow> prefix (map sqlite_lower b) (map sqlite_lower s)"
  using assms
proof (induction b arbitrary: s)
  case Nil
  then show ?case by simp
next
  case (Cons p ps)
  then show ?case by (cases s) auto
qed

lemma pattern_sublist:
  assumes "CHR ''%'' \<notin> set b" and "CHR ''_'' \<notin> set b"
  shows "pattern_compare (''%'' @ b @ ''%'') s \<longleftrightarrow>
         sublist (map sqlite_lower b) (map sqlite_lower s)"
proof (induction s)
  case Nil
  show ?case using pattern_prefix[OF assms, of "[]"] by simp
next
  case (Cons c s)
  show ?case using pattern_prefix[OF assms, of "c # s"] Cons
    by (simp add: sublist_Cons_right)
qed

lemma pattern_suffix:
  assumes "CHR ''%'' \<notin> set b" and "CHR ''_'' \<notin> set b"
  shows "pattern_compare (''%'' @ b) s \<longleftrightarrow> suffix (map sqlite_lower b) (map sqlite_lower s)"
proof (induction s)
  case Nil
  show ?case using pattern_literal[OF assms, of "[]"] by (cases b) simp_all
next
  case (Cons c s)
  show ?case using pattern_literal[OF assms, of "c # s"] Cons
    by (cases b) (auto simp: suffix_Cons)
qed

text \<open>
  The pattern \<^verbatim>\<open>%busca%\<close> as the store reads it: whole when the search text has no
  U+0000, and cut before the first one otherwise, which drops the closing \<^verbatim>\<open>%\<close>.
\<close>

lemma like_sublist:
  assumes "CHR ''%'' \<notin> set b" and "CHR ''_'' \<notin> set b" and "CHR 0x00 \<notin> set b"
  shows "like_match (''%'' @ b @ ''%'') s \<longleftrightarrow>
         sublist (map sqlite_lower b) (map sqlite_lower (c_string s))"
proof -
  have "c_string (''%'' @ b @ ''%'') = ''%'' @ b @ ''%''"
    using assms(3) by (intro c_string_id) simp
  then show ?thesis unfolding like_match_def using pattern_sublist[OF assms(1,2)] by simp
qed

lemma like_suffix:
  assumes "CHR ''%'' \<notin> set (c_string b)" and "CHR ''_'' \<notin> set (c_string b)"
    and "CHR 0x00 \<in> set b"
  shows "like_match (''%'' @ b @ ''%'') s \<longleftrightarrow>
         suffix (map sqlite_lower (c_string b)) (map sqlite_lower (c_string s))"
proof -
  have "c_string (''%'' @ b @ ''%'') = ''%'' @ c_string b"
    using assms(3) by (simp add: c_string_Cons c_string_append)
  then show ?thesis unfolding like_match_def using pattern_suffix[OF assms(1,2)] by simp
qed

lemma length_sql_limit_offset: "0 \<le> n \<Longrightarrow> length (sql_limit_offset n off rows) \<le> nat n"
  by (simp add: sql_limit_offset_def)

lemma sql_limit_offset_window:
  "0 \<le> n \<Longrightarrow> sql_limit_offset n off rows = take (nat n) (drop (nat off) rows)"
  by (simp add: sql_limit_offset_def)

lemma sql_limit_offset_unbounded:
  "n < 0 \<Longrightarrow> sql_limit_offset n off rows = drop (nat off) rows"
  by (simp add: sql_limit_offset_def)

text \<open>Rounding a quotient up, as \<^verbatim>\<open>(total + limit - 1) // limit\<close> does.\<close>

lemma up_div:
  fixes t l :: int
  assumes "0 < l"
  shows "(t + l - 1) div l = (if t mod l = 0 then t div l else t div l + 1)"
proof (cases "t mod l = 0")
  case True
  have "t = l * (t div l)" using True by auto
  then have "t + l - 1 = l * (t div l) + (l - 1)" by simp
  then have "(t + l - 1) div l = t div l"
    using assms by (intro int_div_pos_eq[where r = "l - 1"]) auto
  with True show ?thesis by simp
next
  case False
  have r: "0 < t mod l" "t mod l < l"
    using False pos_mod_sign[OF assms, of t] pos_mod_bound[OF assms, of t] by linarith+
  have "t = l * (t div l) + t mod l" by simp
  then have "t + l - 1 = l * (t div l + 1) + (t mod l - 1)"
    by (simp add: algebra_simps)
  then have "(t + l - 1) div l = t div l + 1"
    using r by (intro int_div_pos_eq[where r = "t mod l - 1"]) auto
  with False show ?thesis by simp
qed

lemma ceil_div:
  fixes t l :: int
  assumes "0 < l"
  shows "(t + l - 1) div l = \<lceil>real_of_int t / real_of_int l\<rceil>"
  using assms by (simp add: ceiling_divide_eq_div up_div zdiv_zminus1_eq_if)

subsection \<open>The example store\<close>

lemma exemplo_sorted:
  "sort_key razao_social (operadoras exemplo_db) = operadoras exemplo_db"
  by (simp add: exemplo_db_def exemplo_operadora_def)

lemma exemplo_length: "length (operadoras exemplo_db) = 3"
  by (simp add: exemplo_db_def)

lemma exemplo_nonempty: "operadoras exemplo_db \<noteq> []"
  by (simp add: exemplo_db_def)

lemma exemplo_filtradas_underscore: "filtradas exemplo_db ''_'' = operadoras exemplo_db"
  by (simp add: filtradas_def corresponde_def like_match_def c_string_def exemplo_db_def
      exemplo_operadora_def)

lemma exemplo_filtradas_AL:
  "filtradas exemplo_db ''AL'' = [exemplo_operadora ''A'' ''Alfa'' ''SP'']"
  by code_simp

lemma lower_AL: "map sqlite_lower ''AL'' = ''al''"
  by code_simp

lemma lower_Alfa: "map sqlite_lower ''Alfa'' = ''alfa''"
  by code_simp

lemma lower_Fa: "map sqlite_lower ''Fa'' = ''fa''"
  by code_simp

subsection \<open>The listing, step by step\<close>

lemma where_rows_where_de:
  "where_rows (where_de b) rows =
     (if b \<noteq> [] \<and> rows \<noteq> [] \<and> like_too_complex (''%'' @ b @ ''%'')
      then Inl OperationalError
      else Inr (filter (corresponde b) rows))"
  by (auto simp: where_rows_def where_de_def corresponde_def[abs_def])

lemma select_operadoras_where_de:
  "select_operadoras db (where_de b) n off =
     (if \<not> in_int64 n \<or> \<not> in_int64 off then Inl OverflowError
      else if n = 0 then Inr []
      else if b \<noteq> [] \<and> operadoras db \<noteq> [] \<and> like_too_complex (''%'' @ b @ ''%'')
        then Inl OperationalError
      else Inr (sql_limit_offset n off (sort_key razao_social (filtradas db b))))"
  by (simp add: select_operadoras_def where_rows_where_de filtradas_def)

lemma count_operadoras_where_de:
  "count_operadoras db (where_de b) =
     (if b \<noteq> [] \<and> operadoras db \<noteq> [] \<and> like_too_complex (''%'' @ b @ ''%'')
        then Inl OperationalError
      else Inr (int (length (filtradas db b))))"
  by (simp add: count_operadoras_def where_rows_where_de filtradas_def)

lemma listar_page_raises:
  "int_arg args ''page'' 1 = Inl e \<Longrightarrow> listar_operadoras db args = ([], Inl e)"
  by (simp add: listar_operadoras_def raising_def)

lemma listar_limit_raises:
  "int_arg args ''page'' 1 = Inr p \<Longrightarrow> int_arg args ''limit'' 10 = Inl e \<Longrightarrow>
     listar_operadoras db args = ([], Inl e)"
  by (simp add: listar_operadoras_def raising_def)

lemma api_operadoras_raises:
  "snd (listar_operadoras db args) = Inl e \<Longrightarrow> api_operadoras db args = internal_error"
  by (simp add: api_operadoras_def handle_exception_def)

lemma listar_operadoras_unfold:
  assumes "int_arg args ''page'' 1 = Inr p" and "int_arg args ''limit'' 10 = Inr l"
  shows "listar_operadoras db args =
     raising [SelectOperadorasPage (where_de (py_strip (str_arg args ''busca'' ''''))) (min l 100) ((p - 1) * min l 100)]
       (select_operadoras db (where_de (py_strip (str_arg args ''busca'' ''''))) (min l 100) ((p - 1) * min l 100))
       (\<lambda>rows.
          raising [SelectOperadorasPage (where_de (py_strip (str_arg args ''busca'' ''''))) (min l 100) ((p - 1) * min l 100),
                   CountOperadoras (where_de (py_strip (str_arg args ''busca'' '''')))]
            (count_operadoras db (where_de (py_strip (str_arg args ''busca'' ''''))))
            (\<lambda>t. if min l 100 = 0
                  then ([SelectOperadorasPage (where_de (py_strip (str_arg args ''busca'' ''''))) (min l 100) ((p - 1) * min l 100),
                         CountOperadoras (where_de (py_strip (str_arg args ''busca'' '''')))], Inl ZeroDivisionError)
                  else ([SelectOperadorasPage (where_de (py_strip (str_arg args ''busca'' ''''))) (min l 100) ((p - 1) * min l 100),
                         CountOperadoras (where_de (py_strip (str_arg args ''busca'' '''')))],
                        Inr \<lparr>data = rows, page = p, limit = min l 100, total = t,
                             total_pages = (t + min l 100 - 1) div min l 100\<rparr>)))"
  unfolding listar_operadoras_def Let_def assms where_de_def
  by (simp only: raising_def sum.case)

text \<open>
  The four ways a listing request with well-formed numbers ends: a number that does not
  fit the store's integers, a pattern the store refuses, the division by a zero limit,
  or the envelope.
\<close>

lemma listar_operadoras_eval:
  assumes "int_arg args ''page'' 1 = Inr p" and "int_arg args ''limit'' 10 = Inr l"
    and n: "n = min l 100" and off: "off = (p - 1) * n"
    and b: "b = py_strip (str_arg args ''busca'' '''')" and w: "w = where_de b"
  shows "listar_operadoras db args =
    (if \<not> in_int64 n \<or> \<not> in_int64 off then ([SelectOperadorasPage w n off], Inl OverflowError)
     else if b \<noteq> [] \<and> operadoras db \<noteq> [] \<and> like_too_complex (''%'' @ b @ ''%'')
       then (if n = 0 then ([SelectOperadorasPage w n off, CountOperadoras w], Inl OperationalError)
             else ([SelectOperadorasPage w n off], Inl OperationalError))
     else if n = 0 then ([SelectOperadorasPage w n off, CountOperadoras w], Inl ZeroDivisionError)
     else ([SelectOperadorasPage w n off, CountOperadoras w],
           Inr \<lparr>data = sql_limit_offset n off (sort_key razao_social (filtradas db b)),
                page = p, limit = n, total = int (length (filtradas db b)),
                total_pages = (int (length (filtradas db b)) + n - 1) div n\<rparr>))"
    (is "_ = ?rhs")
proof -
  have "listar_operadoras db args =
     raising [SelectOperadorasPage w n off] (select_operadoras db w n off)
       (\<lambda>rows. raising [SelectOperadorasPage w n off, CountOperadoras w] (count_operadoras db w)
            (\<lambda>t. if n = 0 then ([SelectOperadorasPage w n off, CountOperadoras w], Inl ZeroDivisionError)
                  else ([SelectOperadorasPage w n off, CountOperadoras w],
                        Inr \<lparr>data = rows, page = p, limit = n, total = t,
                             total_pages = (t + n - 1) div n\<rparr>)))"
    unfolding n off b w by (rule listar_operadoras_unfold[OF assms(1,2)])
  also have "\<dots> = ?rhs"
    unfolding w select_operadoras_where_de count_operadoras_where_de raising_def
    by (simp split: if_splits)
  finally show ?thesis .
qed

lemma listar_returns:
  assumes "snd (listar_operadoras db args) = Inr env"
  obtains p l where "int_arg args ''page'' 1 = Inr p" and "int_arg args ''limit'' 10 = Inr l"
proof -
  from int_arg_cases[of args "''page''" 1] obtain p where p: "int_arg args ''page'' 1 = Inr p"
    using assms by (auto simp: listar_page_raises)
  from int_arg_cases[of args "''limit''" 10] obtain l where "int_arg args ''limit'' 10 = Inr l"
    using assms p by (auto simp: listar_limit_raises)
  with p that show thesis by blast
qed

subsection \<open>Pagination\<close>

text \<open>
  C1, as the code has it. For a request with page at least 1 and limit from 1 to 100,
  whose offset \<open>(page - 1) * limit\<close> is below \<open>2 ^ 63\<close> and whose search pattern
  is at most 50000 bytes long, the listing returns an envelope: it echoes the page and
  the limit, its slice is the window of \<open>limit\<close> rows at that offset of the matching
  rows in the order of their legal names, so it has at most \<open>limit\<close> rows, the total is
  the number of all matching rows, the number of pages is the total divided by the limit
  and rounded up when the total is positive and 0 otherwise, and a page beyond the last
  one has an empty slice under the same total.
\<close>

theorem listar_pagina_valida:
  assumes "int_arg args ''page'' 1 = Inr p" and "int_arg args ''limit'' 10 = Inr l"
    and "1 \<le> p" and "1 \<le> l" and "l \<le> 100" and "(p - 1) * l < 2 ^ 63"
    and "\<not> like_too_complex (''%'' @ py_strip (str_arg args ''busca'' '''') @ ''%'')"
  shows "\<exists>env. snd (listar_operadoras db args) = Inr env \<and> page env = p \<and> limit env = l \<and>
           data env = take (nat l) (drop (nat ((p - 1) * l))
                        (sort_key razao_social (filtradas db (py_strip (str_arg args ''busca'' ''''))))) \<and>
           length (data env) \<le> nat l \<and>
           total env = int (length (filtradas db (py_strip (str_arg args ''busca'' '''')))) \<and>
           total_pages env =
             (if 0 < total env then \<lceil>real_of_int (total env) / real_of_int l\<rceil> else 0) \<and>
           (total env \<le> (p - 1) * l \<longrightarrow> data env = [])"
proof -
  define b where "b = py_strip (str_arg args ''busca'' '''')"
  define rows where "rows = sort_key razao_social (filtradas db b)"
  define T where "T = int (length (filtradas db b))"
  have n: "min l 100 = l" using assms(5) by simp
  have "0 \<le> (p - 1) * l" using assms(3,4) by simp
  then have r: "in_int64 l" "in_int64 ((p - 1) * l)"
    using assms(4,5,6) by (simp_all add: in_int64_def)
  have ev: "snd (listar_operadoras db args) =
      Inr \<lparr>data = sql_limit_offset l ((p - 1) * l) rows, page = p, limit = l, total = T,
           total_pages = (T + l - 1) div l\<rparr>"
    using listar_operadoras_eval[OF assms(1,2) refl refl refl refl, of db] assms(4,7) r
    unfolding n b_def[symmetric] by (simp add: rows_def T_def)
  have w: "sql_limit_offset l ((p - 1) * l) rows = take (nat l) (drop (nat ((p - 1) * l)) rows)"
    using assms(4) by (simp add: sql_limit_offset_window)
  have tp: "(T + l - 1) div l = (if 0 < T then \<lceil>real_of_int T / real_of_int l\<rceil> else 0)"
  proof (cases "0 < T")
    case True
    then show ?thesis using ceil_div[of l T] assms(4) by simp
  next
    case False
    then have "T = 0" by (simp add: T_def)
    then show ?thesis using assms(4) by (simp add: div_pos_pos_trivial)
  qed
  have e: "T \<le> (p - 1) * l \<longrightarrow> take (nat l) (drop (nat ((p - 1) * l)) rows) = []"
    by (auto simp: T_def rows_def)
  show ?thesis
    unfolding ev b_def[symmetric] rows_def[symmetric] T_def[symmetric]
    using w tp e by simp
qed

text \<open>
  On the example store, page 2 of size 2 holds the third of the three operators, and
  there are two pages.
\<close>

theorem listar_pagina_valida_witness:
  "snd (listar_operadoras exemplo_db [(''page'', ''2''), (''limit'', ''2'')]) =
     Inr \<lparr>data = [exemplo_operadora ''C'' ''Gama'' ''SP''], page = 2, limit = 2, total = 3,
          total_pages = 2\<rparr>"
proof -
  let ?args = "[(''page'', ''2''), (''limit'', ''2'')]"
  have p: "int_arg ?args ''page'' 1 = Inr 2" by (simp add: int_arg_Cons py_int_2)
  have l: "int_arg ?args ''limit'' 10 = Inr 2" by (simp add: int_arg_Cons py_int_2)
  have b: "py_strip (str_arg ?args ''busca'' '''') = []"
    by (simp add: str_arg_def py_strip_def)
  have c: "\<not> like_too_complex (''%'' @ py_strip (str_arg ?args ''busca'' '''') @ ''%'')"
    unfolding b by (rule short_pattern) simp
  from listar_pagina_valida[OF p l _ _ _ _ c, of exemplo_db]
  obtain env where r: "snd (listar_operadoras exemplo_db ?args) = Inr env"
    and 1: "page env = 2" and 2: "limit env = 2"
    and 3: "data env = take 2 (drop 2 (sort_key razao_social (operadoras exemplo_db)))"
    and 4: "total env = int (length (operadoras exemplo_db))"
    and 5: "total_pages env = (if 0 < total env then \<lceil>real_of_int (total env) / 2\<rceil> else 0)"
    unfolding b by auto
  have 3: "data env = [exemplo_operadora ''C'' ''Gama'' ''SP'']"
    unfolding 3 exemplo_sorted by (simp add: exemplo_db_def)
  have 4: "total env = 3" unfolding 4 by (simp add: exemplo_db_def)
  have 5: "total_pages env = 2" unfolding 5 4 by simp
  have "env = \<lparr>data = [exemplo_operadora ''C'' ''Gama'' ''SP''], page = 2, limit = 2, total = 3,
          total_pages = 2\<rparr>"
    by (rule envelope.equality) (simp_all add: 1 2 3 4 5)
  with r show ?thesis by simp
qed

text \<open>
  C1 as stated fails. Page \<open>10 ^ 19\<close> with the default limit is a page at least 1 with a
  limit in range, yet the offset does not fit a 64-bit integer and binding it raises
  \<^verbatim>\<open>OverflowError\<close>: no empty slice and no total are returned. And with a search text
  of 49999 characters, the store refuses the pattern on the first row it visits.
\<close>

theorem pagina_sem_limite_counterexample:
  "snd (listar_operadoras exemplo_db [(''page'', ''10000000000000000000'')]) = Inl OverflowError \<and>
   snd (listar_operadoras exemplo_db [(''busca'', replicate 49999 (CHR ''a''))]) =
     Inl OperationalError"
proof -
  let ?a1 = "[(''page'', ''10000000000000000000'')]"
  have p: "int_arg ?a1 ''page'' 1 = Inr 10000000000000000000"
    by (simp add: int_arg_Cons py_int_big)
  have l: "int_arg ?a1 ''limit'' 10 = Inr 10" by (simp add: int_arg_def)
  have 1: "snd (listar_operadoras exemplo_db ?a1) = Inl OverflowError"
    unfolding listar_operadoras_eval[OF p l refl refl refl refl]
    by (simp add: in_int64_def)
  let ?a2 = "[(''busca'', replicate 49999 (CHR ''a''))]"
  have p2: "int_arg ?a2 ''page'' 1 = Inr 1" by (simp add: int_arg_def)
  have l2: "int_arg ?a2 ''limit'' 10 = Inr 10" by (simp add: int_arg_def)
  have b2: "py_strip (str_arg ?a2 ''busca'' '''') = replicate 49999 (CHR ''a'')"
    by (simp add: str_arg_def py_strip_def py_isspace_def)
  have c2: "like_too_complex (''%'' @ replicate 49999 (CHR ''a'') @ ''%'')"
    by (simp add: like_too_complex_def utf8_length_def filter_replicate)
  have n2: "replicate 49999 (CHR ''a'') \<noteq> []" by simp
  have 2: "snd (listar_operadoras exemplo_db ?a2) = Inl OperationalError"
    unfolding listar_operadoras_eval[OF p2 l2 refl refl refl refl] b2
    using c2 n2 exemplo_nonempty by (simp add: in_int64_def)
  from 1 2 show ?thesis by blast
qed

subsection \<open>The filter\<close>

text \<open>
  C2, as the code has it. Whenever the listing returns an envelope, its total is the
  number of rows of the store whose legal name or tax identifier matches the pattern
  \<^verbatim>\<open>%busca%\<close> for the trimmed search text, whatever the page and the limit are, and its
  slice is the window (of the echoed page and limit) of exactly those rows in the order
  of their legal names: one predicate serves the slice query and the count query. In
  the pattern, \<^verbatim>\<open>%\<close> and \<^verbatim>\<open>_\<close> of the search text are wildcards, and the store reads
  the pattern and the column text up to their first U+0000 only. So for a search text
  without \<^verbatim>\<open>%\<close>, \<^verbatim>\<open>_\<close> and U+0000, the predicate is containment of the text in one of
  the two columns (each read up to its first U+0000), the ASCII letters compared without
  regard to case; and for a search text with a U+0000, whose part before the first
  U+0000 has no wildcard, the predicate is that one of the two columns ends with that
  part.
\<close>

theorem total_independe_da_pagina:
  assumes "snd (listar_operadoras db args) = Inr env"
  shows "total env = int (length (filtradas db (py_strip (str_arg args ''busca'' '''')))) \<and>
         data env = sql_limit_offset (limit env) ((page env - 1) * limit env)
                      (sort_key razao_social (filtradas db (py_strip (str_arg args ''busca'' '''')))) \<and>
         (CHR ''%'' \<notin> set busca \<and> CHR ''_'' \<notin> set busca \<and> CHR 0x00 \<notin> set busca \<longrightarrow>
            corresponde busca r =
              (sublist (map sqlite_lower busca) (map sqlite_lower (c_string (razao_social r))) \<or>
               sublist (map sqlite_lower busca) (map sqlite_lower (c_string (cnpj r))))) \<and>
         (CHR 0x00 \<in> set busca \<and>
          CHR ''%'' \<notin> set (c_string busca) \<and> CHR ''_'' \<notin> set (c_string busca) \<longrightarrow>
            corresponde busca r =
              (suffix (map sqlite_lower (c_string busca))
                 (map sqlite_lower (c_string (razao_social r))) \<or>
               suffix (map sqlite_lower (c_string busca))
                 (map sqlite_lower (c_string (cnpj r)))))"
proof -
  from assms obtain p l
    where pl: "int_arg args ''page'' 1 = Inr p" "int_arg args ''limit'' 10 = Inr l"
    by (rule listar_returns)
  note ev = listar_operadoras_eval[OF pl refl refl refl refl, of db]
  have "total env = int (length (filtradas db (py_strip (str_arg args ''busca'' ''''))))"
    using assms unfolding ev by (auto split: if_splits)
  moreover have "data env = sql_limit_offset (limit env) ((page env - 1) * limit env)
                      (sort_key razao_social (filtradas db (py_strip (str_arg args ''busca'' ''''))))"
    using assms unfolding ev by (auto split: if_splits)
  moreover have "CHR ''%'' \<notin> set busca \<and> CHR ''_'' \<notin> set busca \<and> CHR 0x00 \<notin> set busca \<longrightarrow>
            corresponde busca r =
              (sublist (map sqlite_lower busca) (map sqlite_lower (c_string (razao_social r))) \<or>
               sublist (map sqlite_lower busca) (map sqlite_lower (c_string (cnpj r))))"
    using like_sublist[of busca "razao_social r"] like_sublist[of busca "cnpj r"]
    by (simp add: corresponde_def)
  moreover have "CHR 0x00 \<in> set busca \<and>
          CHR ''%'' \<notin> set (c_string busca) \<and> CHR ''_'' \<notin> set (c_string busca) \<longrightarrow>
            corresponde busca r =
              (suffix (map sqlite_lower (c_string busca))
                 (map sqlite_lower (c_string (razao_social r))) \<or>
               suffix (map sqlite_lower (c_string busca))
                 (map sqlite_lower (c_string (cnpj r))))"
    using like_suffix[of busca "razao_social r"] like_suffix[of busca "cnpj r"]
    by (simp add: corresponde_def)
  ultimately show ?thesis by blast
qed

text \<open>
  On the example store, the search text \<open>'' AL ''\<close> finds the operator Alfa, on page 1
  of size 10 and on page 2 of size 2 alike; and a search text that goes on after a
  U+0000 finds it by the ending \<open>''fa''\<close> of its name.
\<close>

theorem total_independe_da_pagina_witness:
  "snd (listar_operadoras exemplo_db [(''busca'', '' AL ''), (''page'', ''1'')]) =
     Inr \<lparr>data = [exemplo_operadora ''A'' ''Alfa'' ''SP''], page = 1, limit = 10, total = 1,
          total_pages = 1\<rparr> \<and>
   snd (listar_operadoras exemplo_db [(''busca'', '' AL ''), (''page'', ''2''), (''limit'', ''2'')]) =
     Inr \<lparr>data = [], page = 2, limit = 2, total = 1, total_pages = 1\<rparr> \<and>
   int (length (filtradas exemplo_db ''AL'')) = 1 \<and>
   corresponde ''AL'' (exemplo_operadora ''A'' ''Alfa'' ''SP'') \<and>
   corresponde [CHR ''F'', CHR ''a'', CHR 0x00, CHR ''x''] (exemplo_operadora ''A'' ''Alfa'' ''SP'')"
proof -
  let ?a = "[(''busca'', '' AL ''), (''page'', ''1'')]"
  let ?e = "\<lparr>data = [exemplo_operadora ''A'' ''Alfa'' ''SP''], page = 1, limit = 10, total = 1,
          total_pages = 1\<rparr>"
  have p: "int_arg ?a ''page'' 1 = Inr 1" by (simp add: int_arg_Cons py_int_1)
  have l: "int_arg ?a ''limit'' 10 = Inr 10" by (simp add: int_arg_def)
  have b: "py_strip (str_arg ?a ''busca'' '''') = ''AL''"
    by (simp add: str_arg_def py_strip_def py_isspace_def)
  have c: "\<not> like_too_complex (''%'' @ ''AL'' @ ''%'')" by (rule short_pattern) simp
  have 1: "snd (listar_operadoras exemplo_db ?a) = Inr ?e"
    unfolding listar_operadoras_eval[OF p l refl refl refl refl] b
    using c by (simp add: in_int64_def exemplo_filtradas_AL sql_limit_offset_def)
  let ?a' = "[(''busca'', '' AL ''), (''page'', ''2''), (''limit'', ''2'')]"
  let ?e' = "\<lparr>data = [], page = 2, limit = 2, total = 1, total_pages = 1\<rparr>"
  have p': "int_arg ?a' ''page'' 1 = Inr 2" by (simp add: int_arg_Cons py_int_2)
  have l': "int_arg ?a' ''limit'' 10 = Inr 2" by (simp add: int_arg_Cons py_int_2)
  have b': "py_strip (str_arg ?a' ''busca'' '''') = ''AL''"
    by (simp add: str_arg_def py_strip_def py_isspace_def)
  have 2: "snd (listar_operadoras exemplo_db ?a') = Inr ?e'"
    unfolding listar_operadoras_eval[OF p' l' refl refl refl refl] b'
    using c by (simp add: in_int64_def exemplo_filtradas_AL sql_limit_offset_def)
  have "total ?e = int (length (filtradas exemplo_db ''AL''))"
    using total_independe_da_pagina[OF 1] unfolding b by blast
  then have t: "int (length (filtradas exemplo_db ''AL'')) = 1" by simp
  have cs: "c_string ''Alfa'' = ''Alfa''" "c_string ''A'' = ''A''"
    "c_string [CHR ''F'', CHR ''a'', CHR 0x00, CHR ''x''] = ''Fa''"
    by (simp_all add: c_string_def)
  have "corresponde ''AL'' (exemplo_operadora ''A'' ''Alfa'' ''SP'') =
          (sublist (map sqlite_lower ''AL'')
             (map sqlite_lower (c_string (razao_social (exemplo_operadora ''A'' ''Alfa'' ''SP'')))) \<or>
           sublist (map sqlite_lower ''AL'')
             (map sqlite_lower (c_string (cnpj (exemplo_operadora ''A'' ''Alfa'' ''SP'')))))"
    using total_independe_da_pagina[OF 2, of "''AL''" "exemplo_operadora ''A'' ''Alfa'' ''SP''"]
    by simp
  then have 3: "corresponde ''AL'' (exemplo_operadora ''A'' ''Alfa'' ''SP'')"
    unfolding exemplo_operadora_def operadora.simps cs lower_AL lower_Alfa
    by (simp add: sublist_Cons_right)
  have "corresponde [CHR ''F'', CHR ''a'', CHR 0x00, CHR ''x'']
            (exemplo_operadora ''A'' ''Alfa'' ''SP'') =
          (suffix (map sqlite_lower (c_string [CHR ''F'', CHR ''a'', CHR 0x00, CHR ''x'']))
             (map sqlite_lower (c_string (razao_social (exemplo_operadora ''A'' ''Alfa'' ''SP'')))) \<or>
           suffix (map sqlite_lower (c_string [CHR ''F'', CHR ''a'', CHR 0x00, CHR ''x'']))
             (map sqlite_lower (c_string (cnpj (exemplo_operadora ''A'' ''Alfa'' ''SP'')))))"
    using total_independe_da_pagina[OF 2, of "[CHR ''F'', CHR ''a'', CHR 0x00, CHR ''x'']"
        "exemplo_operadora ''A'' ''Alfa'' ''SP''"]
    by (simp add: cs)
  then have 4: "corresponde [CHR ''F'', CHR ''a'', CHR 0x00, CHR ''x'']
            (exemplo_operadora ''A'' ''Alfa'' ''SP'')"
    unfolding exemplo_operadora_def operadora.simps cs lower_Fa lower_Alfa
    by (simp add: suffix_Cons)
  from 1 2 t 3 4 show ?thesis by blast
qed

text \<open>
  C2 as stated fails. For the search text \<open>''_''\<close> the total is 3, the whole example
  store, while no legal name and no tax identifier of it contains an underscore.
\<close>

theorem busca_curinga_counterexample:
  "snd (listar_operadoras exemplo_db [(''busca'', ''_'')]) =
     Inr \<lparr>data = operadoras exemplo_db, page = 1, limit = 10, total = 3, total_pages = 1\<rparr> \<and>
   length (filter (contem_busca ''_'') (operadoras exemplo_db)) = 0"
proof -
  let ?a = "[(''busca'', ''_'')]"
  have p: "int_arg ?a ''page'' 1 = Inr 1" by (simp add: int_arg_def)
  have l: "int_arg ?a ''limit'' 10 = Inr 10" by (simp add: int_arg_def)
  have b: "py_strip (str_arg ?a ''busca'' '''') = ''_''"
    by (simp add: str_arg_def py_strip_def py_isspace_def)
  have c: "\<not> like_too_complex (''%'' @ ''_'' @ ''%'')" by (rule short_pattern) simp
  have 1: "snd (listar_operadoras exemplo_db ?a) =
     Inr \<lparr>data = operadoras exemplo_db, page = 1, limit = 10, total = 3, total_pages = 1\<rparr>"
    unfolding listar_operadoras_eval[OF p l refl refl refl refl] b
    using c by (simp add: in_int64_def exemplo_filtradas_underscore exemplo_sorted
        sql_limit_offset_def exemplo_length)
  have 2: "length (filter (contem_busca ''_'') (operadoras exemplo_db)) = 0"
    by (simp add: contem_busca_def exemplo_db_def exemplo_operadora_def sublist_Cons_right)
  from 1 2 show ?thesis by blast
qed

subsection \<open>The bounds of the limit\<close>

text \<open>
  C6, as the code has it. A requested limit that is an integer literal above 100 is
  answered exactly as the limit 100 is: the request and the same request with
  \<^verbatim>\<open>limit=100\<close> have the same statements and the same result. When the page is malformed
  the request is rejected before any statement. Otherwise the slice query is issued with
  the limit 100 and the offset \<open>(page - 1) * 100\<close>; the request is answered with an
  envelope exactly when that offset fits the store's integers and the store does not
  refuse the pattern; and then the envelope has limit 100, a window of at most 100 rows at
  that offset, and \<open>(total + 100 - 1) div 100\<close> pages.
\<close>

theorem limite_maximo_100:
  assumes "int_arg args ''limit'' 10 = Inr l" and "100 < l"
  shows "listar_operadoras db args = listar_operadoras db ((''limit'', ''100'') # args) \<and>
    (int_arg args ''page'' 1 = Inl e \<longrightarrow> listar_operadoras db args = ([], Inl e)) \<and>
    (int_arg args ''page'' 1 = Inr p \<longrightarrow>
       take 1 (fst (listar_operadoras db args)) =
         [SelectOperadorasPage (where_de (py_strip (str_arg args ''busca'' ''''))) 100 ((p - 1) * 100)] \<and>
       ((\<exists>env. snd (listar_operadoras db args) = Inr env) \<longleftrightarrow>
          in_int64 ((p - 1) * 100) \<and>
          \<not> (py_strip (str_arg args ''busca'' '''') \<noteq> [] \<and> operadoras db \<noteq> [] \<and>
             like_too_complex (''%'' @ py_strip (str_arg args ''busca'' '''') @ ''%''))) \<and>
       (in_int64 ((p - 1) * 100) \<and>
        \<not> like_too_complex (''%'' @ py_strip (str_arg args ''busca'' '''') @ ''%'') \<longrightarrow>
          listar_operadoras db args =
            ([SelectOperadorasPage (where_de (py_strip (str_arg args ''busca'' ''''))) 100 ((p - 1) * 100),
              CountOperadoras (where_de (py_strip (str_arg args ''busca'' '''')))],
             Inr \<lparr>data = take 100 (drop (nat ((p - 1) * 100))
                           (sort_key razao_social (filtradas db (py_strip (str_arg args ''busca'' ''''))))),
                  page = p, limit = 100,
                  total = int (length (filtradas db (py_strip (str_arg args ''busca'' '''')))),
                  total_pages = (int (length (filtradas db (py_strip (str_arg args ''busca'' '''')))) + 100 - 1) div 100\<rparr>)))"
proof -
  have n: "min l 100 = 100" using assms(2) by simp
  have l100: "int_arg ((''limit'', ''100'') # args) ''limit'' 10 = Inr 100"
    by (simp add: int_arg_Cons py_int_100)
  have pg: "int_arg ((''limit'', ''100'') # args) ''page'' 1 = int_arg args ''page'' 1"
    by (simp add: int_arg_Cons)
  have bs: "str_arg ((''limit'', ''100'') # args) ''busca'' '''' = str_arg args ''busca'' ''''"
    by (simp add: str_arg_Cons)
  have same: "listar_operadoras db args = listar_operadoras db ((''limit'', ''100'') # args)"
  proof (cases "int_arg args ''page'' 1")
    case (Inl e)
    then show ?thesis using pg by (simp add: listar_page_raises)
  next
    case (Inr q)
    show ?thesis
      unfolding listar_operadoras_eval[OF Inr assms(1) refl refl refl refl]
        listar_operadoras_eval[OF Inr[folded pg] l100 refl refl refl refl] n bs
      by simp
  qed
  have bad: "listar_operadoras db args = ([], Inl e)" if "int_arg args ''page'' 1 = Inl e"
    using that by (rule listar_page_raises)
  have stmt: "take 1 (fst (listar_operadoras db args)) =
         [SelectOperadorasPage (where_de (py_strip (str_arg args ''busca'' ''''))) 100 ((p - 1) * 100)]"
    if p: "int_arg args ''page'' 1 = Inr p"
    unfolding listar_operadoras_eval[OF p assms(1) refl refl refl refl] n
    by simp
  have iff: "(\<exists>env. snd (listar_operadoras db args) = Inr env) \<longleftrightarrow>
          in_int64 ((p - 1) * 100) \<and>
          \<not> (py_strip (str_arg args ''busca'' '''') \<noteq> [] \<and> operadoras db \<noteq> [] \<and>
             like_too_complex (''%'' @ py_strip (str_arg args ''busca'' '''') @ ''%''))"
    if p: "int_arg args ''page'' 1 = Inr p"
  proof -
    have "in_int64 100" by (simp add: in_int64_def)
    then show ?thesis
      unfolding listar_operadoras_eval[OF p assms(1) refl refl refl refl] n by simp
  qed
  have rest: "listar_operadoras db args =
            ([SelectOperadorasPage (where_de (py_strip (str_arg args ''busca'' ''''))) 100 ((p - 1) * 100),
              CountOperadoras (where_de (py_strip (str_arg args ''busca'' '''')))],
             Inr \<lparr>data = take 100 (drop (nat ((p - 1) * 100))
                           (sort_key razao_social (filtradas db (py_strip (str_arg args ''busca'' ''''))))),
                  page = p, limit = 100,
                  total = int (length (filtradas db (py_strip (str_arg args ''busca'' '''')))),
                  total_pages = (int (length (filtradas db (py_strip (str_arg args ''busca'' '''')))) + 100 - 1) div 100\<rparr>)"
    if p: "int_arg args ''page'' 1 = Inr p" and "in_int64 ((p - 1) * 100)"
      and "\<not> like_too_complex (''%'' @ py_strip (str_arg args ''busca'' '''') @ ''%'')"
    unfolding listar_operadoras_eval[OF p assms(1) refl refl refl refl] n
    using that(2,3) by (simp add: in_int64_def sql_limit_offset_window)
  from same bad stmt iff rest show ?thesis by blast
qed

text \<open>On the example store, \<^verbatim>\<open>limit=250\<close> is served with the limit 100.\<close>

theorem limite_maximo_100_witness:
  "listar_operadoras exemplo_db [(''limit'', ''250'')] =
     ([SelectOperadorasPage None 100 0, CountOperadoras None],
      Inr \<lparr>data = operadoras exemplo_db, page = 1, limit = 100, total = 3, total_pages = 1\<rparr>) \<and>
   listar_operadoras exemplo_db [(''limit'', ''250'')] =
     listar_operadoras exemplo_db [(''limit'', ''100''), (''limit'', ''250'')]"
proof -
  let ?a = "[(''limit'', ''250'')]"
  have l: "int_arg ?a ''limit'' 10 = Inr 250" by (simp add: int_arg_Cons py_int_250)
  have p: "int_arg ?a ''page'' 1 = Inr 1" by (simp add: int_arg_def)
  have b: "py_strip (str_arg ?a ''busca'' '''') = []" by (rule no_busca) simp
  have h: "(100::int) < 250" by simp
  note t = limite_maximo_100[OF l h, where p = 1 and db = exemplo_db, unfolded b]
  have "listar_operadoras exemplo_db ?a =
     ([SelectOperadorasPage None 100 0, CountOperadoras None],
      Inr \<lparr>data = operadoras exemplo_db, page = 1, limit = 100, total = 3, total_pages = 1\<rparr>)"
    using t[THEN conjunct2, THEN conjunct2] p empty_pattern
    by (simp add: in_int64_def where_de_def exemplo_sorted exemplo_length)
  moreover have "listar_operadoras exemplo_db ?a =
     listar_operadoras exemplo_db [(''limit'', ''100''), (''limit'', ''250'')]"
    using t[THEN conjunct1] .
  ultimately show ?thesis by blast
qed

text \<open>
  C6 as stated fails: a request with a limit above 100 can be rejected. \<^verbatim>\<open>limit=250\<close>
  with \<^verbatim>\<open>page=abc\<close> raises \<^verbatim>\<open>ValueError\<close>; with page \<open>10 ^ 19\<close> the offset
  \<open>(page - 1) * 100\<close> does not fit the store's integers and binding it raises
  \<^verbatim>\<open>OverflowError\<close>; and a limit of 4301 digits is refused by \<^verbatim>\<open>int\<close> before any
  clamping.
\<close>

theorem limite_rejeitado_counterexample:
  "listar_operadoras exemplo_db [(''limit'', ''250''), (''page'', ''abc'')] = ([], Inl ValueError) \<and>
   snd (listar_operadoras exemplo_db [(''limit'', ''250''), (''page'', ''10000000000000000000'')]) =
     Inl OverflowError \<and>
   listar_operadoras exemplo_db [(''limit'', replicate 4301 (CHR ''9''))] = ([], Inl ValueError) \<and>
   api_operadoras exemplo_db [(''limit'', replicate 4301 (CHR ''9''))] =
     (Erro ''Erro interno do servidor'', 500)"
proof -
  let ?a1 = "[(''limit'', ''250''), (''page'', ''abc'')]"
  have "int_arg ?a1 ''page'' 1 = Inl ValueError" by (simp add: int_arg_Cons py_int_abc)
  then have 1: "listar_operadoras exemplo_db ?a1 = ([], Inl ValueError)"
    by (rule listar_page_raises)
  let ?a2 = "[(''limit'', ''250''), (''page'', ''10000000000000000000'')]"
  have p: "int_arg ?a2 ''page'' 1 = Inr 10000000000000000000"
    by (simp add: int_arg_Cons py_int_big)
  have l: "int_arg ?a2 ''limit'' 10 = Inr 250" by (simp add: int_arg_Cons py_int_250)
  have 2: "snd (listar_operadoras exemplo_db ?a2) = Inl OverflowError"
    unfolding listar_operadoras_eval[OF p l refl refl refl refl]
    by (simp add: in_int64_def)
  let ?a3 = "[(''limit'', replicate 4301 (CHR ''9''))]"
  have p3: "int_arg ?a3 ''page'' 1 = Inr 1" by (simp add: int_arg_def)
  have "int_arg ?a3 ''limit'' 10 = Inl ValueError"
    by (simp add: int_arg_Cons py_int_4301)
  with p3 have 3: "listar_operadoras exemplo_db ?a3 = ([], Inl ValueError)"
    by (rule listar_limit_raises)
  then have 4: "api_operadoras exemplo_db ?a3 = (Erro ''Erro interno do servidor'', 500)"
    by (simp add: api_operadoras_def handle_exception_def internal_error_def)
  from 1 2 3 4 show ?thesis by blast
qed

text \<open>
  C7, as the code has it. A missing \<^verbatim>\<open>page\<close> is served as \<^verbatim>\<open>page=1\<close> and a missing
  \<^verbatim>\<open>limit\<close> as \<^verbatim>\<open>limit=10\<close>. A value of \<^verbatim>\<open>page\<close> or \<^verbatim>\<open>limit\<close> that is present and is
  not an integer literal is not replaced by the default: the handler raises
  \<^verbatim>\<open>ValueError\<close> before any statement is executed, and the caller is sent the error
  response.
\<close>

theorem parametros_ausentes_ou_malformados:
  "(map_of args ''page'' = None \<longrightarrow>
      listar_operadoras db args = listar_operadoras db ((''page'', ''1'') # args)) \<and>
   (map_of args ''limit'' = None \<longrightarrow>
      listar_operadoras db args = listar_operadoras db ((''limit'', ''10'') # args)) \<and>
   ((map_of args ''page'' = Some s \<or> map_of args ''limit'' = Some s) \<and> py_int s = None \<longrightarrow>
      listar_operadoras db args = ([], Inl ValueError) \<and>
      api_operadoras db args = internal_error)"
proof -
  have a: "listar_operadoras db args = listar_operadoras db ((''page'', ''1'') # args)"
    if "map_of args ''page'' = None"
  proof -
    have 1: "int_arg args ''page'' 1 = Inr 1" using that by (simp add: int_arg_def)
    have 2: "int_arg ((''page'', ''1'') # args) ''page'' 1 = Inr 1"
      by (simp add: int_arg_Cons py_int_1)
    have 3: "int_arg ((''page'', ''1'') # args) ''limit'' 10 = int_arg args ''limit'' 10"
      by (simp add: int_arg_Cons)
    have 4: "str_arg ((''page'', ''1'') # args) ''busca'' '''' = str_arg args ''busca'' ''''"
      by (simp add: str_arg_Cons)
    show ?thesis
    proof (cases "int_arg args ''limit'' 10")
      case (Inl e)
      then show ?thesis using 1 2 3 by (simp add: listar_limit_raises)
    next
      case (Inr l)
      show ?thesis
        unfolding listar_operadoras_eval[OF 1 Inr refl refl refl refl]
          listar_operadoras_eval[OF 2 Inr[folded 3] refl refl refl refl] 4
        by simp
    qed
  qed
  have b: "listar_operadoras db args = listar_operadoras db ((''limit'', ''10'') # args)"
    if "map_of args ''limit'' = None"
  proof -
    have 1: "int_arg args ''limit'' 10 = Inr 10" using that by (simp add: int_arg_def)
    have 2: "int_arg ((''limit'', ''10'') # args) ''limit'' 10 = Inr 10"
      by (simp add: int_arg_Cons py_int_10)
    have 3: "int_arg ((''limit'', ''10'') # args) ''page'' 1 = int_arg args ''page'' 1"
      by (simp add: int_arg_Cons)
    have 4: "str_arg ((''limit'', ''10'') # args) ''busca'' '''' = str_arg args ''busca'' ''''"
      by (simp add: str_arg_Cons)
    show ?thesis
    proof (cases "int_arg args ''page'' 1")
      case (Inl e)
      then show ?thesis using 3 by (simp add: listar_page_raises)
    next
      case (Inr p)
      show ?thesis
        unfolding listar_operadoras_eval[OF Inr 1 refl refl refl refl]
          listar_operadoras_eval[OF Inr[folded 3] 2 refl refl refl refl] 4
        by simp
    qed
  qed
  have c: "listar_operadoras db args = ([], Inl ValueError)"
    if "(map_of args ''page'' = Some s \<or> map_of args ''limit'' = Some s) \<and> py_int s = None"
  proof (cases "int_arg args ''page'' 1")
    case (Inl e)
    then have "e = ValueError" using int_arg_cases[of args "''page''" 1] by simp
    with Inl show ?thesis by (simp add: listar_page_raises)
  next
    case (Inr p)
    then have "map_of args ''page'' \<noteq> Some s" using that by (auto simp: int_arg_def)
    then have "int_arg args ''limit'' 10 = Inl ValueError" using that by (auto simp: int_arg_def)
    with Inr show ?thesis by (simp add: listar_limit_raises)
  qed
  from a b c show ?thesis by (auto simp: api_operadoras_raises)
qed

text \<open>
  The request without parameters is the request with either default spelled out, and
  \<^verbatim>\<open>limit=dez\<close> raises.
\<close>

theorem parametros_ausentes_ou_malformados_witness:
  "listar_operadoras exemplo_db [] = listar_operadoras exemplo_db [(''page'', ''1'')] \<and>
   listar_operadoras exemplo_db [] = listar_operadoras exemplo_db [(''limit'', ''10'')] \<and>
   listar_operadoras exemplo_db [(''limit'', ''dez'')] = ([], Inl ValueError) \<and>
   api_operadoras exemplo_db [(''limit'', ''dez'')] = internal_error"
proof -
  have 1: "map_of ([] :: (string \<times> string) list) ''page'' = None" by simp
  have 2: "map_of ([] :: (string \<times> string) list) ''limit'' = None" by simp
  have 3: "(map_of [(''limit'', ''dez'')] ''page'' = Some ''dez'' \<or>
            map_of [(''limit'', ''dez'')] ''limit'' = Some ''dez'') \<and> py_int ''dez'' = None"
    by (simp add: py_int_dez)
  from parametros_ausentes_ou_malformados[where args = "[]" and db = exemplo_db] 1 2
  have a: "listar_operadoras exemplo_db [] = listar_operadoras exemplo_db [(''page'', ''1'')]"
    and b: "listar_operadoras exemplo_db [] = listar_operadoras exemplo_db [(''limit'', ''10'')]"
    by blast+
  from parametros_ausentes_ou_malformados[where args = "[(''limit'', ''dez'')]" and s = "''dez''"
      and db = exemplo_db] 3
  have c: "listar_operadoras exemplo_db [(''limit'', ''dez'')] = ([], Inl ValueError) \<and>
           api_operadoras exemplo_db [(''limit'', ''dez'')] = internal_error"
    by blast
  from a b c show ?thesis by blast
qed

text \<open>
  C7 as stated fails: \<^verbatim>\<open>page=abc\<close> is not served as page 1. The handler raises
  \<^verbatim>\<open>ValueError\<close> and the answer is the error response with status 500.
\<close>

theorem valor_malformado_counterexample:
  "listar_operadoras exemplo_db [(''page'', ''abc'')] = ([], Inl ValueError) \<and>
   api_operadoras exemplo_db [(''page'', ''abc'')] = (Erro ''Erro interno do servidor'', 500)"
proof -
  have "int_arg [(''page'', ''abc'')] ''page'' 1 = Inl ValueError"
    by (simp add: int_arg_Cons py_int_abc)
  then have "listar_operadoras exemplo_db [(''page'', ''abc'')] = ([], Inl ValueError)"
    by (rule listar_page_raises)
  then show ?thesis
    by (simp add: api_operadoras_def handle_exception_def internal_error_def)
qed

text \<open>
  C10. The lower bound of the limit is not enforced. With a limit of 0 the listing
  never returns an envelope: it raises, and the caller is sent the error response; when
  the pattern is accepted, both queries have run (with limit 0 and offset 0) and the
  exception is the \<^verbatim>\<open>ZeroDivisionError\<close> of the page count. A negative limit is handed
  to the slice query as it is, and when the numbers fit the store's integers and the
  pattern is accepted, the envelope echoes the negative limit and its slice is every
  matching row from the offset on.
\<close>

theorem limite_sem_minimo:
  assumes "int_arg args ''page'' 1 = Inr p" and "int_arg args ''limit'' 10 = Inr l"
  shows "(l = 0 \<longrightarrow>
            (\<exists>e. snd (listar_operadoras db args) = Inl e) \<and>
            api_operadoras db args = internal_error) \<and>
         (l = 0 \<and> \<not> like_too_complex (''%'' @ py_strip (str_arg args ''busca'' '''') @ ''%'') \<longrightarrow>
            listar_operadoras db args =
              ([SelectOperadorasPage (where_de (py_strip (str_arg args ''busca'' ''''))) 0 0,
                CountOperadoras (where_de (py_strip (str_arg args ''busca'' '''')))],
               Inl ZeroDivisionError)) \<and>
         (l < 0 \<longrightarrow>
            take 1 (fst (listar_operadoras db args)) =
              [SelectOperadorasPage (where_de (py_strip (str_arg args ''busca'' ''''))) l ((p - 1) * l)]) \<and>
         (l < 0 \<and> in_int64 l \<and> in_int64 ((p - 1) * l) \<and>
          \<not> like_too_complex (''%'' @ py_strip (str_arg args ''busca'' '''') @ ''%'') \<longrightarrow>
            snd (listar_operadoras db args) =
              Inr \<lparr>data = drop (nat ((p - 1) * l))
                            (sort_key razao_social (filtradas db (py_strip (str_arg args ''busca'' '''')))),
                   page = p, limit = l,
                   total = int (length (filtradas db (py_strip (str_arg args ''busca'' '''')))),
                   total_pages = (int (length (filtradas db (py_strip (str_arg args ''busca'' '''')))) + l - 1) div l\<rparr>)"
proof -
  note ev = listar_operadoras_eval[OF assms refl refl refl refl, of db]
  have z: "(\<exists>e. snd (listar_operadoras db args) = Inl e)" if "l = 0"
    unfolding ev using that by (simp add: in_int64_def)
  have z2: "listar_operadoras db args =
              ([SelectOperadorasPage (where_de (py_strip (str_arg args ''busca'' ''''))) 0 0,
                CountOperadoras (where_de (py_strip (str_arg args ''busca'' '''')))],
               Inl ZeroDivisionError)"
    if "l = 0" "\<not> like_too_complex (''%'' @ py_strip (str_arg args ''busca'' '''') @ ''%'')"
    unfolding ev using that by (simp add: in_int64_def)
  have m: "take 1 (fst (listar_operadoras db args)) =
              [SelectOperadorasPage (where_de (py_strip (str_arg args ''busca'' ''''))) l ((p - 1) * l)]"
    if "l < 0"
    unfolding ev using that by simp
  have m2: "snd (listar_operadoras db args) =
              Inr \<lparr>data = drop (nat ((p - 1) * l))
                            (sort_key razao_social (filtradas db (py_strip (str_arg args ''busca'' '''')))),
                   page = p, limit = l,
                   total = int (length (filtradas db (py_strip (str_arg args ''busca'' '''')))),
                   total_pages = (int (length (filtradas db (py_strip (str_arg args ''busca'' '''')))) + l - 1) div l\<rparr>"
    if "l < 0" "in_int64 l" "in_int64 ((p - 1) * l)"
      "\<not> like_too_complex (''%'' @ py_strip (str_arg args ''busca'' '''') @ ''%'')"
    unfolding ev using that by (simp add: sql_limit_offset_unbounded)
  from z z2 m m2 show ?thesis by (auto simp: api_operadoras_raises)
qed

text \<open>
  Both inputs reach the handler through the query string: \<^verbatim>\<open>limit=0\<close> raises, and
  \<^verbatim>\<open>limit=-5&page=2\<close> returns all three operators with 0 pages.
\<close>

theorem limite_sem_minimo_witness:
  "listar_operadoras exemplo_db [(''limit'', ''0'')] =
     ([SelectOperadorasPage None 0 0, CountOperadoras None], Inl ZeroDivisionError) \<and>
   api_operadoras exemplo_db [(''limit'', ''0'')] = internal_error \<and>
   take 1 (fst (listar_operadoras exemplo_db [(''limit'', ''-5''), (''page'', ''2'')])) =
     [SelectOperadorasPage None (- 5) (- 5)] \<and>
   snd (listar_operadoras exemplo_db [(''limit'', ''-5''), (''page'', ''2'')]) =
     Inr \<lparr>data = operadoras exemplo_db, page = 2, limit = - 5, total = 3, total_pages = 0\<rparr>"
proof -
  let ?a = "[(''limit'', ''0'')]"
  have l: "int_arg ?a ''limit'' 10 = Inr 0" by (simp add: int_arg_Cons py_int_0)
  have p: "int_arg ?a ''page'' 1 = Inr 1" by (simp add: int_arg_def)
  have b: "py_strip (str_arg ?a ''busca'' '''') = []" by (rule no_busca) simp
  note t = limite_sem_minimo[OF p l, where db = exemplo_db, unfolded b]
  have 1: "listar_operadoras exemplo_db ?a =
     ([SelectOperadorasPage None 0 0, CountOperadoras None], Inl ZeroDivisionError)"
    using t empty_pattern by (simp add: where_de_def)
  have 2: "api_operadoras exemplo_db ?a = internal_error"
    using t by simp
  let ?a' = "[(''limit'', ''-5''), (''page'', ''2'')]"
  have l': "int_arg ?a' ''limit'' 10 = Inr (- 5)" by (simp add: int_arg_Cons py_int_neg5)
  have p': "int_arg ?a' ''page'' 1 = Inr 2" by (simp add: int_arg_Cons py_int_2)
  have b': "py_strip (str_arg ?a' ''busca'' '''') = []" by (rule no_busca) simp
  note t' = limite_sem_minimo[OF p' l', where db = exemplo_db, unfolded b']
  have 3: "take 1 (fst (listar_operadoras exemplo_db ?a')) =
     [SelectOperadorasPage None (- 5) (- 5)]"
    using t' by (simp add: where_de_def)
  have 4: "snd (listar_operadoras exemplo_db ?a') =
     Inr \<lparr>data = operadoras exemplo_db, page = 2, limit = - 5, total = 3, total_pages = 0\<rparr>"
    using t' empty_pattern
    by (simp add: in_int64_def exemplo_sorted exemplo_length)
  from 1 2 3 4 show ?thesis by blast
qed

subsection \<open>Lookups by tax identifier\<close>

lemma find_None_cnpj: "c \<notin> cnpj ` set rows \<Longrightarrow> find (\<lambda>r. cnpj r = c) rows = None"
  by (induction rows) auto

text \<open>
  C8. When no operator row has the tax identifier, the detail lookup and the history
  lookup both answer 404 with the \<^verbatim>\<open>erro\<close> body of the message \<open>nao_encontrada\<close>, and
  the history lookup has executed the operator query only: the expense query is not
  issued.
\<close>

theorem not_found_404:
  assumes "c \<notin> cnpj ` set (operadoras db)"
  shows "detalhes_operadora db c = ([SelectOperadora c], (Erro nao_encontrada, 404)) \<and>
         historico_despesas db c = ([SelectRazaoSocial c], (Erro nao_encontrada, 404)) \<and>
         SelectDespesas c \<notin> set (fst (historico_despesas db c))"
  using assms
  by (simp add: detalhes_operadora_def historico_despesas_def fetch_operadora_def
      find_None_cnpj)

theorem not_found_404_witness:
  "detalhes_operadora exemplo_db ''Z'' = ([SelectOperadora ''Z''], (Erro nao_encontrada, 404)) \<and>
   historico_despesas exemplo_db ''Z'' = ([SelectRazaoSocial ''Z''], (Erro nao_encontrada, 404)) \<and>
   SelectDespesas ''Z'' \<notin> set (fst (historico_despesas exemplo_db ''Z''))"
proof -
  have "''Z'' \<notin> cnpj ` set (operadoras exemplo_db)"
    by (simp add: exemplo_db_def exemplo_operadora_def)
  then show ?thesis by (rule not_found_404)
qed




subsection \<open>The statistics cache\<close>

text \<open>
  C3. With the timeout of 300 seconds: when the cache holds a value and a timestamp less
  than 300 seconds old, the statistics handler answers with the cached value, executes
  no statement and leaves the cache as it is; when the cache is empty, or its timestamp
  is 300 seconds old or older, the handler executes the four aggregation queries,
  answers with their result and stores that result together with the current time.
\<close>

theorem estatisticas_cache:
  assumes "timeout cache = 300"
  shows "(dados cache = Some d \<and> timestamp cache = Some t \<and> agora - t < 300 * 1000000 \<longrightarrow>
            estatisticas ops db cache agora = ([], (Estatisticas d, 200), cache)) \<and>
         (dados cache = None \<or> timestamp cache = None \<or>
            (timestamp cache = Some t \<and> 300 * 1000000 \<le> agora - t) \<longrightarrow>
            estatisticas ops db cache agora =
              ([SumDespesas, AvgDespesas, TopOperadoras, DistribuicaoUf],
               (Estatisticas (calcula_estatisticas ops db), 200),
               cache\<lparr>dados := Some (calcula_estatisticas ops db), timestamp := Some agora\<rparr>))"
  using assms
  by (auto simp: estatisticas_def cache_valido_def Let_def split: option.splits)

text \<open>
  A first call at time \<open>T0\<close> fills the empty cache; a call 100 seconds later returns the
  stored value although the store has been emptied; a call 301 seconds after \<open>T0\<close>
  recomputes and stores the new time.
\<close>

theorem estatisticas_cache_witness:
  "estatisticas exemplo_ops exemplo_db cache_estatisticas 1000 =
     ([SumDespesas, AvgDespesas, TopOperadoras, DistribuicaoUf],
      (Estatisticas (calcula_estatisticas exemplo_ops exemplo_db), 200),
      \<lparr>dados = Some (calcula_estatisticas exemplo_ops exemplo_db), timestamp = Some 1000,
       timeout = 300\<rparr>) \<and>
   estatisticas exemplo_ops db_vazio
       \<lparr>dados = Some (calcula_estatisticas exemplo_ops exemplo_db), timestamp = Some 1000,
        timeout = 300\<rparr> 100001000 =
     ([], (Estatisticas (calcula_estatisticas exemplo_ops exemplo_db), 200),
      \<lparr>dados = Some (calcula_estatisticas exemplo_ops exemplo_db), timestamp = Some 1000,
       timeout = 300\<rparr>) \<and>
   estatisticas exemplo_ops db_vazio
       \<lparr>dados = Some (calcula_estatisticas exemplo_ops exemplo_db), timestamp = Some 1000,
        timeout = 300\<rparr> 301001000 =
     ([SumDespesas, AvgDespesas, TopOperadoras, DistribuicaoUf],
      (Estatisticas (calcula_estatisticas exemplo_ops db_vazio), 200),
      \<lparr>dados = Some (calcula_estatisticas exemplo_ops db_vazio), timestamp = Some 301001000,
       timeout = 300\<rparr>)"
proof -
  let ?r = "calcula_estatisticas exemplo_ops exemplo_db"
  let ?c = "\<lparr>dados = Some ?r, timestamp = Some 1000, timeout = 300\<rparr>"
  have 1: "timeout (cache_estatisticas :: int cache) = 300" by (simp add: cache_estatisticas_def)
  have 2: "timeout ?c = 300" by simp
  from estatisticas_cache[OF 1, where ops = exemplo_ops and db = exemplo_db and agora = 1000]
  have a: "estatisticas exemplo_ops exemplo_db cache_estatisticas 1000 =
     ([SumDespesas, AvgDespesas, TopOperadoras, DistribuicaoUf], (Estatisticas ?r, 200),
      \<lparr>dados = Some ?r, timestamp = Some 1000, timeout = 300\<rparr>)"
    by (simp add: cache_estatisticas_def)
  from estatisticas_cache[OF 2, where ops = exemplo_ops and db = db_vazio and agora = 100001000
      and d = ?r and t = 1000]
  have b: "estatisticas exemplo_ops db_vazio ?c 100001000 = ([], (Estatisticas ?r, 200), ?c)"
    by simp
  from estatisticas_cache[OF 2, where ops = exemplo_ops and db = db_vazio and agora = 301001000
      and t = 1000]
  have c: "estatisticas exemplo_ops db_vazio ?c 301001000 =
     ([SumDespesas, AvgDespesas, TopOperadoras, DistribuicaoUf],
      (Estatisticas (calcula_estatisticas exemplo_ops db_vazio), 200),
      \<lparr>dados = Some (calcula_estatisticas exemplo_ops db_vazio), timestamp = Some 301001000,
       timeout = 300\<rparr>)"
    by simp
  from a b c show ?thesis by blast
qed

text \<open>The handler keeps the timeout, so the 300 seconds hold for every later call.\<close>

lemma estatisticas_timeout:
  "timeout (snd (snd (estatisticas ops db cache agora))) = timeout cache"
  by (simp add: estatisticas_def Let_def split: option.splits)

subsection \<open>The ranking\<close>












lemma set_order_by_desc [simp]: "set (order_by_desc f xs) = set xs"
  by (simp add: order_by_desc_def)

lemma length_order_by_desc [simp]: "length (order_by_desc f xs) = length xs"
  by (simp add: order_by_desc_def)






subsection \<open>Rounding to doubles\<close>

lemma rhe_exact: "0 < q \<Longrightarrow> rhe (m * q) q = m"
  by (simp add: rhe_def)






text \<open>A value of at most 53 significant bits is a double, and rounding leaves it alone.\<close>

lemma rndq_exact:
  assumes "0 < q" and "\<bar>m\<bar> < 2 ^ 53"
  shows "rndq (q * (m * 2 ^ e)) q = m * 2 ^ e"
proof -
  define x where "x = \<bar>m\<bar> * 2 ^ e"
  have ab: "\<bar>q * (m * 2 ^ e)\<bar> = x * q" using assms(1) by (simp add: x_def abs_mult)
  have d: "x * q div q = x" using assms(1) by simp
  have sg: "q * (m * 2 ^ e) < 0 \<longleftrightarrow> m < 0"
    using assms(1) by (simp add: mult_less_0_iff)
  have v: "(if bitlen x - 53 \<le> 0 then rhe (x * q) q
            else rhe (x * q) (q * 2 ^ nat (bitlen x - 53)) * 2 ^ nat (bitlen x - 53)) = x"
  proof (cases "bitlen x - 53 \<le> 0")
    case True
    then show ?thesis using rhe_exact[OF assms(1), of x] by simp
  next
    case False
    then have mpos: "0 < \<bar>m\<bar>" by (auto simp: x_def)
    have "bitlen \<bar>m\<bar> \<le> 53" using assms(2) by (simp add: bitlen_le_iff_power)
    then have "bitlen x \<le> 53 + int e" unfolding x_def using mpos by simp
    then have "nat (bitlen x - 53) \<le> e" by simp
    then obtain i where e: "e = nat (bitlen x - 53) + i" using le_Suc_ex by blast
    define k where "k = nat (bitlen x - 53)"
    have xq: "x * q = (\<bar>m\<bar> * 2 ^ i) * (q * 2 ^ k)"
      unfolding x_def using e by (simp add: power_add k_def)
    have "0 < q * 2 ^ k" using assms(1) by simp
    then have "rhe (x * q) (q * 2 ^ k) = \<bar>m\<bar> * 2 ^ i"
      unfolding xq by (rule rhe_exact)
    moreover have "\<bar>m\<bar> * 2 ^ i * 2 ^ k = x"
      unfolding x_def using e by (simp add: power_add k_def)
    ultimately show ?thesis using False by (simp add: k_def)
  qed
  have "(if m < 0 then - x else x) = m * 2 ^ e" by (simp add: x_def)
  then show ?thesis unfolding rndq_def Let_def ab d sg v .
qed

lemma rnd_exact: "\<bar>m\<bar> < 2 ^ 53 \<Longrightarrow> rnd (m * 2 ^ e) = m * 2 ^ e"
  using rndq_exact[of 1 m e] by (simp add: rnd_def)

lemma rnd_0 [simp]: "rnd 0 = 0"
  using rnd_exact[of 0 0] by simp





lemma unidade_pos: "0 < unidade"
  by (simp add: unidade_def)








lemma double_round2_0 [simp]: "double_round2 0 = 0"
proof -
  have "rhe 0 unidade = 0" using rhe_exact[OF unidade_pos, of 0] by simp
  then show ?thesis using rndq_exact[of 100 0 0] by (simp add: double_round2_def)
qed







lemma decimal_0 [simp]: "decimal 0 j = 0"
  using rndq_exact[of "10 ^ j" 0 0] by (simp add: decimal_def)



subsection \<open>The totals\<close>













lemma inteiro_sum [simp]: "inteiro a + inteiro b = inteiro (a + b)"
  by (simp add: inteiro_def algebra_simps)

lemma inteiro_abs [simp]: "\<bar>inteiro a\<bar> = inteiro \<bar>a\<bar>"
  using unidade_pos by (simp add: inteiro_def abs_mult)

lemma inteiro_dvd [simp]: "unidade dvd inteiro a"
  by (simp add: inteiro_def)












end
